theory Spec2Isabelle
  imports Main "HOL-Library.Word" "HOL-Library.AList"
begin

unbundle bit_operations_syntax

section \<open>Python values and exceptions\<close>

text \<open>
  The module \<^verbatim>\<open>chemberta/utils/raw_text_dataset.py\<close> is glue between a file path,
  a lazy dataset loader, a tokenizer and \<^verbatim>\<open>torch.tensor\<close>. Exceptions are values: every
  function that can raise returns \<open>error + 'a\<close>, with \<open>Inl\<close> the exception.
  \<open>OtherError\<close> stands for any exception of another class raised by a collaborator.
\<close>

datatype error =
    ValueError string
  | IndexError
  | KeyError string
  | TypeError
  | OverflowError
  | RuntimeError string
  | PermissionError
  | OtherError string

text \<open>
  A Python \<^verbatim>\<open>float\<close> is an IEEE 754 binary64: one sign bit, eleven exponent bits and
  fifty-two fraction bits. A float is kept as its 64 bits.
\<close>

type_synonym float64 = "64 word"

definition exponent_bits :: "float64 \<Rightarrow> 64 word" where
  "exponent_bits w = drop_bit 52 w AND 0x7FF"

definition fraction_bits :: "float64 \<Rightarrow> 64 word" where
  "fraction_bits w = w AND 0xFFFFFFFFFFFFF"

definition sign_bit :: "float64 \<Rightarrow> bool" where
  "sign_bit w = (drop_bit 63 w = 1)"

definition float_isnan :: "float64 \<Rightarrow> bool" where
  "float_isnan w = (exponent_bits w = 0x7FF \<and> fraction_bits w \<noteq> 0)"

definition float_isinf :: "float64 \<Rightarrow> bool" where
  "float_isinf w = (exponent_bits w = 0x7FF \<and> fraction_bits w = 0)"

text \<open>
  Rounding to a binary format. \<open>round_sig p qmin m x\<close> rounds the number \<open>m * 2^x\<close> to
  \<open>p\<close> significant bits, to nearest and ties to even, with no bit below \<open>2^qmin\<close> (the
  subnormal range); the result \<open>(sig, q)\<close> stands for \<open>sig * 2^q\<close>.
  \<open>double_of\<close> is the binary64 with a given sign and value \<open>sig * 2^q\<close>, for a value
  that binary64 holds exactly (an infinity when it is too large).
\<close>

fun bit_length :: "nat \<Rightarrow> nat" where
  "bit_length n = (if n = 0 then 0 else Suc (bit_length (n div 2)))"

declare bit_length.simps [simp del]

definition round_sig :: "nat \<Rightarrow> int \<Rightarrow> nat \<Rightarrow> int \<Rightarrow> nat \<times> int" where
  "round_sig p qmin m x =
     (let top = int (bit_length m) - 1 + x;
          q = max (top - (int p - 1)) qmin
      in if q \<le> x then (m * 2 ^ nat (x - q), q)
         else
           (let k = nat (q - x);
                t = m div 2 ^ k;
                r = m mod 2 ^ k;
                half = 2 ^ (k - 1);
                sig = (if half < r \<or> (r = half \<and> odd t) then t + 1 else t)
            in if sig = 2 ^ p then (2 ^ (p - 1), q + 1) else (sig, q)))"

definition signed_bits :: "bool \<Rightarrow> nat \<Rightarrow> float64" where
  "signed_bits neg n = word_of_nat ((if neg then 2 ^ 63 else 0) + n)"

definition double_of :: "bool \<Rightarrow> nat \<Rightarrow> int \<Rightarrow> float64" where
  "double_of neg sig q =
     (let top = int (bit_length sig) - 1 + q
      in if sig = 0 then signed_bits neg 0
         else if 1023 < top then signed_bits neg (2047 * 2 ^ 52)
         else if - 1022 \<le> top
           then signed_bits neg
                  (nat (top + 1023) * 2 ^ 52 + (sig * 2 ^ (53 - bit_length sig) - 2 ^ 52))
         else signed_bits neg (sig * 2 ^ nat (q + 1074)))"

text \<open>
  \<^verbatim>\<open>float(n)\<close> for an int that converts (\<^verbatim>\<open>PyLong_AsDouble\<close>), and the C cast of a
  double to \<^verbatim>\<open>float\<close>, the element type of a default \<^verbatim>\<open>torch\<close> tensor. The cast is
  given as the double that equals the resulting binary32 (every binary32 is a binary64),
  which is how \<^verbatim>\<open>tolist()\<close> shows a tensor's entries: it rounds to 24 significant bits,
  turns a magnitude beyond binary32 into an infinity and keeps a NaN a NaN.
\<close>

definition double_of_int :: "int \<Rightarrow> float64" where
  "double_of_int n =
     (case round_sig 53 (- 1074) (nat \<bar>n\<bar>) 0 of (sig, q) \<Rightarrow> double_of (n < 0) sig q)"

definition float32_round :: "float64 \<Rightarrow> float64" where
  "float32_round w =
     (let e = unat (exponent_bits w); f = unat (fraction_bits w)
      in if e = 2047 then (if f = 0 then w else w AND 0xFFFFFFFFE0000000 OR 0x0008000000000000)
         else
           (case round_sig 24 (- 149) (if e = 0 then f else 2 ^ 52 + f)
                   (if e = 0 then - 1074 else int e - 1075) of
              (sig, q) \<Rightarrow>
                if 127 < int (bit_length sig) - 1 + q
                then signed_bits (sign_bit w) (2047 * 2 ^ 52)
                else double_of (sign_bit w) sig q))"

text \<open>
  The values a cell of a row can hold: \<^verbatim>\<open>None\<close>, a \<^verbatim>\<open>bool\<close>, an \<^verbatim>\<open>int\<close>
  (unbounded), a \<^verbatim>\<open>float\<close> or a \<^verbatim>\<open>str\<close>.
\<close>

datatype pyval =
    PNone
  | PBool bool
  | PInt int
  | PFloat float64
  | PStr string

text \<open>
  \<^verbatim>\<open>math.isnan\<close> and \<^verbatim>\<open>math.isinf\<close> convert their argument to a C double first.
  A float is taken as it is; an int (and a bool, which is an int) is converted, which
  raises \<^verbatim>\<open>OverflowError\<close> when the int rounds to a magnitude beyond the largest
  double (\<open>2^1024 - 2^971\<close>; rounding to nearest even, the first int that overflows is
  \<open>2^1024 - 2^970\<close>); \<^verbatim>\<open>None\<close> and a \<^verbatim>\<open>str\<close> raise \<^verbatim>\<open>TypeError\<close>.
  A converted int is never NaN and never infinite.
\<close>

definition fits_double :: "int \<Rightarrow> bool" where
  "fits_double n = (\<bar>n\<bar> < 2 ^ 1024 - 2 ^ 970)"

fun math_isnan :: "pyval \<Rightarrow> error + bool" where
  "math_isnan (PFloat w) = Inr (float_isnan w)"
| "math_isnan (PInt n) = (if fits_double n then Inr False else Inl OverflowError)"
| "math_isnan (PBool b) = Inr False"
| "math_isnan PNone = Inl TypeError"
| "math_isnan (PStr s) = Inl TypeError"

fun math_isinf :: "pyval \<Rightarrow> error + bool" where
  "math_isinf (PFloat w) = Inr (float_isinf w)"
| "math_isinf (PInt n) = (if fits_double n then Inr False else Inl OverflowError)"
| "math_isinf (PBool b) = Inr False"
| "math_isinf PNone = Inl TypeError"
| "math_isinf (PStr s) = Inl TypeError"

section \<open>The file resolver\<close>

text \<open>
  The file system as \<^verbatim>\<open>os.path.isdir\<close>, \<^verbatim>\<open>os.path.isfile\<close> and \<^verbatim>\<open>os.listdir\<close>
  see it: a path names a regular file, a directory with its entries in listing order, a
  directory that may not be read, something else (a device, a socket), or nothing. The
  type of a file is one value of its \<^verbatim>\<open>stat\<close> record, so a path is never both a
  directory and a regular file. \<^verbatim>\<open>os.path.isdir\<close> only needs the \<^verbatim>\<open>stat\<close> record, so
  it is true of a directory without read permission, on which \<^verbatim>\<open>os.listdir\<close> raises
  \<^verbatim>\<open>PermissionError\<close>.
\<close>

datatype node =
    RegularFile
  | Directory "string list"
  | UnreadableDirectory
  | Special

type_synonym filesystem = "string \<Rightarrow> node option"

definition isdir :: "filesystem \<Rightarrow> string \<Rightarrow> bool" where
  "isdir fs p =
     (case fs p of
        Some (Directory entries) \<Rightarrow> True
      | Some UnreadableDirectory \<Rightarrow> True
      | _ \<Rightarrow> False)"

definition isfile :: "filesystem \<Rightarrow> string \<Rightarrow> bool" where
  "isfile fs p = (fs p = Some RegularFile)"

definition listdir :: "filesystem \<Rightarrow> string \<Rightarrow> error + string list" where
  "listdir fs p =
     (case fs p of
        Some (Directory entries) \<Rightarrow> Inr entries
      | Some UnreadableDirectory \<Rightarrow> Inl PermissionError
      | _ \<Rightarrow> Inl (OtherError ''OSError''))"

text \<open>
  \<^verbatim>\<open>os.path.join(a, b)\<close> of \<^verbatim>\<open>posixpath\<close>: an absolute \<open>b\<close> replaces \<open>a\<close>; an empty
  \<open>a\<close> or one ending in a slash takes \<open>b\<close> as it is; otherwise a slash goes between.
\<close>

definition path_join :: "string \<Rightarrow> string \<Rightarrow> string" where
  "path_join a b =
     (if b \<noteq> [] \<and> hd b = CHR ''/'' then b
      else if a = [] \<or> last a = CHR ''/'' then a @ b
      else a @ ''/'' @ b)"

text \<open>\<^verbatim>\<open>get_data_files\<close> returns a list of paths or one bare path.\<close>

datatype data_files =
    PathList "string list"
  | SinglePath string

definition get_data_files :: "filesystem \<Rightarrow> string \<Rightarrow> error + data_files" where
  "get_data_files fs train_path =
     (if isdir fs train_path then
        (case listdir fs train_path of
           Inl e \<Rightarrow> Inl e
         | Inr names \<Rightarrow> Inr (PathList (map (\<lambda>file_name. path_join train_path file_name) names)))
      else if isfile fs train_path then Inr (SinglePath train_path)
      else Inl (ValueError ''Please pass in a proper train path''))"

section \<open>The collaborators: tokenizer, lazy dataset, tensors\<close>

text \<open>
  The tokenizer is a callable object of another library. It is a parameter of the model:
  a function of the text, the keyword arguments and the tokenizer's own state \<open>'s\<close>,
  returning a \<^verbatim>\<open>BatchEncoding\<close> (field names to lists of ints, in insertion order) or
  an exception, and its next state. \<open>padding = None\<close> is a call without the keyword.
\<close>

record tok_opts =
  add_special_tokens :: bool
  truncation :: bool
  padding :: "string option"
  max_length :: int

type_synonym batch_encoding = "(string \<times> int list) list"

type_synonym 's tokenizer = "pyval \<Rightarrow> tok_opts \<Rightarrow> 's \<Rightarrow> (error + batch_encoding) \<times> 's"

text \<open>
  The lazy dataset of the \<^verbatim>\<open>nlp\<close> library: its schema (\<^verbatim>\<open>features\<close>, column names in
  order) and its rows. \<^verbatim>\<open>load_dataset(format, data_files=...)\<close> is a parameter too; it
  returns the splits by name.
\<close>

record 'row lazy_dataset =
  features :: "string list"
  rows :: "'row list"

type_synonym 'row loader = "string \<Rightarrow> data_files \<Rightarrow> error + (string \<times> 'row lazy_dataset) list"

text \<open>
  \<^verbatim>\<open>dataset[i]\<close> with an int: a negative index counts from the end, an index out of
  range raises \<^verbatim>\<open>IndexError\<close>.
\<close>

definition dataset_getitem :: "'row lazy_dataset \<Rightarrow> int \<Rightarrow> error + 'row" where
  "dataset_getitem ds i =
     (let num_rows = int (length (rows ds));
          key = (if i < 0 then num_rows + i else i)
      in if key < 0 \<or> num_rows \<le> key then Inl IndexError else Inr (rows ds ! nat key))"

text \<open>
  A tensor is the list of its entries as Python numbers, the way \<^verbatim>\<open>tolist()\<close> shows
  them. \<^verbatim>\<open>torch.tensor\<close> on a list of numbers infers one element type for all of them:
  \<^verbatim>\<open>float32\<close> when a float is among them, else \<^verbatim>\<open>int64\<close> when an int is among them,
  else \<^verbatim>\<open>bool\<close> (the empty list gives an empty tensor). Each entry is then converted:
  to \<^verbatim>\<open>float32\<close> through a C double and the cast to \<^verbatim>\<open>float\<close>; to \<^verbatim>\<open>int64\<close> with
  \<^verbatim>\<open>RuntimeError("Overflow when unpacking long")\<close> for an int outside 64 bits. The first
  exception ends the conversion. \<^verbatim>\<open>None\<close> or a \<^verbatim>\<open>str\<close> in the list makes it raise;
  this module never passes one.
\<close>

datatype tensor = Tensor (elems: "pyval list")

fun is_float :: "pyval \<Rightarrow> bool" where
  "is_float (PFloat w) = True"
| "is_float x = False"

fun is_int :: "pyval \<Rightarrow> bool" where
  "is_int (PInt n) = True"
| "is_int x = False"

fun is_number :: "pyval \<Rightarrow> bool" where
  "is_number PNone = False"
| "is_number (PStr t) = False"
| "is_number x = True"

definition int64 :: "int \<Rightarrow> bool" where
  "int64 n = (- (2 ^ 63) \<le> n \<and> n < 2 ^ 63)"

fun as_double :: "pyval \<Rightarrow> error + float64" where
  "as_double (PFloat w) = Inr w"
| "as_double (PInt n) = (if fits_double n then Inr (double_of_int n) else Inl OverflowError)"
| "as_double (PBool b) = Inr (if b then 0x3FF0000000000000 else 0)"
| "as_double PNone = Inl TypeError"
| "as_double (PStr t) = Inl TypeError"

definition as_float32 :: "pyval \<Rightarrow> error + pyval" where
  "as_float32 x = (case as_double x of Inl e \<Rightarrow> Inl e | Inr w \<Rightarrow> Inr (PFloat (float32_round w)))"

fun as_int64 :: "pyval \<Rightarrow> error + pyval" where
  "as_int64 (PInt n) =
     (if int64 n then Inr (PInt n) else Inl (RuntimeError ''Overflow when unpacking long''))"
| "as_int64 (PBool b) = Inr (PInt (if b then 1 else 0))"
| "as_int64 x = Inl TypeError"

fun traverse :: "('a \<Rightarrow> error + 'b) \<Rightarrow> 'a list \<Rightarrow> error + 'b list" where
  "traverse f [] = Inr []"
| "traverse f (x # xs) =
     (case f x of
        Inl e \<Rightarrow> Inl e
      | Inr y \<Rightarrow> (case traverse f xs of Inl e \<Rightarrow> Inl e | Inr ys \<Rightarrow> Inr (y # ys)))"

definition torch_tensor :: "pyval list \<Rightarrow> error + tensor" where
  "torch_tensor xs =
     (if list_ex (\<lambda>x. \<not> is_number x) xs then Inl (OtherError ''torch.tensor'')
      else if list_ex is_float xs then
        (case traverse as_float32 xs of Inl e \<Rightarrow> Inl e | Inr ys \<Rightarrow> Inr (Tensor ys))
      else if list_ex is_int xs then
        (case traverse as_int64 xs of Inl e \<Rightarrow> Inl e | Inr ys \<Rightarrow> Inr (Tensor ys))
      else Inr (Tensor xs))"

text \<open>
  A value of the \<^verbatim>\<open>batch_encoding\<close> dict in \<^verbatim>\<open>RegressionDataset.preprocess\<close>: a list
  of ints from the tokenizer, or the label tensor stored under \<^verbatim>\<open>"label"\<close>. The final
  dict comprehension applies \<^verbatim>\<open>torch.tensor\<close> to each value in order; on a tensor it
  gives a copy.
\<close>

datatype field_value =
    IdList "int list"
  | TensorValue tensor

fun torch_tensor_of :: "field_value \<Rightarrow> error + tensor" where
  "torch_tensor_of (IdList ids) = torch_tensor (map PInt ids)"
| "torch_tensor_of (TensorValue t) = Inr t"

definition tensor_items :: "(string \<times> field_value) list \<Rightarrow> error + (string \<times> tensor) list" where
  "tensor_items kvs =
     traverse (\<lambda>(k, v). case torch_tensor_of v of Inl e \<Rightarrow> Inl e | Inr t \<Rightarrow> Inr (k, t)) kvs"

text \<open>\<^verbatim>\<open>str(n)\<close> for an int, used by the constructors' prints.\<close>

fun digits :: "nat \<Rightarrow> string" where
  "digits n =
     (if n < 10 then [''0123456789'' ! n]
      else digits (n div 10) @ [''0123456789'' ! (n mod 10)])"

definition str_int :: "int \<Rightarrow> string" where
  "str_int n = (if n < 0 then ''-'' @ digits (nat (- n)) else digits (nat n))"

text \<open>
  \<^verbatim>\<open>str\<close> of a dict whose keys and values are strings, which is what a record of the
  text dataset is. It is the dict's \<^verbatim>\<open>repr\<close>: the items as \<^verbatim>\<open>key: value\<close> between
  braces, each string as its \<^verbatim>\<open>repr\<close>. The \<^verbatim>\<open>repr\<close> of a string puts it between single
  quotes (double quotes when it holds a single quote and no double quote) and escapes the
  quote, the backslash, tab, newline, carriage return and every character that is not
  printable. A character of the model is a code point below 256.
\<close>

definition repr_quote :: "string \<Rightarrow> char" where
  "repr_quote t = (if CHR 0x27 \<in> set t \<and> CHR 0x22 \<notin> set t then CHR 0x22 else CHR 0x27)"

definition hex_digit :: "nat \<Rightarrow> char" where
  "hex_digit n = ''0123456789abcdef'' ! n"

definition repr_char :: "char \<Rightarrow> char \<Rightarrow> string" where
  "repr_char q c =
     (let n = (of_char c :: nat)
      in if c = q \<or> c = CHR 0x5C then [CHR 0x5C, c]
         else if c = CHR 0x09 then [CHR 0x5C, CHR ''t'']
         else if c = CHR 0x0A then [CHR 0x5C, CHR ''n'']
         else if c = CHR 0x0D then [CHR 0x5C, CHR ''r'']
         else if n < 32 \<or> n = 127 \<or> (128 \<le> n \<and> n \<le> 160) \<or> n = 173
           then [CHR 0x5C, CHR ''x'', hex_digit (n div 16), hex_digit (n mod 16)]
         else [c])"

definition repr_str :: "string \<Rightarrow> string" where
  "repr_str t = (let q = repr_quote t in q # concat (map (repr_char q) t) @ [q])"

fun repr_items :: "(string \<times> string) list \<Rightarrow> string" where
  "repr_items [] = []"
| "repr_items [(k, v)] = repr_str k @ '': '' @ repr_str v"
| "repr_items ((k, v) # kvs) = repr_str k @ '': '' @ repr_str v @ '', '' @ repr_items kvs"

definition str_dict :: "(string \<times> string) list \<Rightarrow> string" where
  "str_dict d = ''{'' @ repr_items d @ ''}''"

section \<open>RawTextDataset\<close>

text \<open>
  The fields of the object. \<open>'row\<close> is the type of a record of the lazy sequence. The
  text builder of \<^verbatim>\<open>nlp\<close> yields a record as a dict with the one key \<^verbatim>\<open>text\<close>, whose
  value is the line.
\<close>

type_synonym text_row = "(string \<times> string) list"

record ('s, 'row) RawTextDataset =
  tokenizer :: "'s tokenizer"
  file_path :: string
  block_size :: int
  dataset :: "'row lazy_dataset"
  len :: int

text \<open>
  \<^verbatim>\<open>__init__\<close> returns the lines it printed and the object, or the exception that left
  it.
\<close>

definition RawTextDataset_init ::
  "filesystem \<Rightarrow> 'row loader \<Rightarrow> 's tokenizer \<Rightarrow> string \<Rightarrow> int
     \<Rightarrow> string list \<times> (error + ('s, 'row) RawTextDataset)" where
  "RawTextDataset_init fs load_dataset tok path bs =
     (case get_data_files fs path of
        Inl e \<Rightarrow> ([], Inl e)
      | Inr data_files \<Rightarrow>
          (case load_dataset ''text'' data_files of
             Inl e \<Rightarrow> ([], Inl e)
           | Inr splits \<Rightarrow>
               (case map_of splits ''train'' of
                  None \<Rightarrow> ([], Inl (KeyError ''train''))
                | Some ds \<Rightarrow>
                    (let n = int (length (rows ds)) in
                     ([''Loaded Dataset'',
                       ''Number of lines: '' @ str_int n,
                       ''Block size: '' @ str_int bs],
                      Inr \<lparr>tokenizer = tok, file_path = path, block_size = bs,
                           dataset = ds, len = n\<rparr>)))))"

definition RawTextDataset_len :: "('s, 'row) RawTextDataset \<Rightarrow> int" where
  "RawTextDataset_len self = len self"

text \<open>
  \<^verbatim>\<open>preprocess\<close> and \<^verbatim>\<open>__getitem__\<close> return the result (or the exception), the object
  after the call and the tokenizer's state after the call. \<^verbatim>\<open>__getitem__\<close> hands the
  whole record to \<^verbatim>\<open>preprocess\<close>, which tokenizes \<^verbatim>\<open>str\<close> of it.
\<close>

definition RawTextDataset_preprocess ::
  "('s, text_row) RawTextDataset \<Rightarrow> text_row \<Rightarrow> 's
     \<Rightarrow> (error + tensor) \<times> ('s, text_row) RawTextDataset \<times> 's" where
  "RawTextDataset_preprocess self text s =
     (case tokenizer self (PStr (str_dict text))
             \<lparr>add_special_tokens = True, truncation = True, padding = None,
              max_length = block_size self\<rparr> s of
        (Inl e, s') \<Rightarrow> (Inl e, self, s')
      | (Inr batch_encoding, s') \<Rightarrow>
          (case map_of batch_encoding ''input_ids'' of
             None \<Rightarrow> (Inl (KeyError ''input_ids''), self, s')
           | Some ids \<Rightarrow>
               (case torch_tensor (map PInt ids) of
                  Inl e \<Rightarrow> (Inl e, self, s')
                | Inr t \<Rightarrow> (Inr t, self, s'))))"

definition RawTextDataset_getitem ::
  "('s, text_row) RawTextDataset \<Rightarrow> int \<Rightarrow> 's
     \<Rightarrow> (error + tensor) \<times> ('s, text_row) RawTextDataset \<times> 's" where
  "RawTextDataset_getitem self i s =
     (case dataset_getitem (dataset self) i of
        Inl e \<Rightarrow> (Inl e, self, s)
      | Inr line \<Rightarrow> RawTextDataset_preprocess self line s)"

section \<open>RegressionDataset\<close>

text \<open>
  A row of the csv dataset is a dict from column name to cell. The object has the five
  fields of \<open>RawTextDataset\<close> and three more, so its record extends that one (the
  Python classes are siblings; the extension only shares the field names).
\<close>

type_synonym row = "(string \<times> pyval) list"

record 's RegressionDataset = "('s, row) RawTextDataset" +
  smiles_column :: string
  label_columns :: "string list"
  num_labels :: int

definition RegressionDataset_init ::
  "filesystem \<Rightarrow> row loader \<Rightarrow> 's tokenizer \<Rightarrow> string \<Rightarrow> int
     \<Rightarrow> string list \<times> (error + 's RegressionDataset)" where
  "RegressionDataset_init fs load_dataset tok path bs =
     (case get_data_files fs path of
        Inl e \<Rightarrow> ([''init dataset''], Inl e)
      | Inr data_files \<Rightarrow>
          (case load_dataset ''csv'' data_files of
             Inl e \<Rightarrow> ([''init dataset''], Inl e)
           | Inr splits \<Rightarrow>
               (case map_of splits ''train'' of
                  None \<Rightarrow> ([''init dataset''], Inl (KeyError ''train''))
                | Some ds \<Rightarrow>
                    (case features ds of
                       [] \<Rightarrow> ([''init dataset''], Inl IndexError)
                     | first_column # other_columns \<Rightarrow>
                         (let n = int (length (rows ds)) in
                          ([''init dataset'',
                            ''Loaded Dataset'',
                            ''Number of lines: '' @ str_int n,
                            ''Block size: '' @ str_int bs],
                           Inr \<lparr>tokenizer = tok, file_path = path, block_size = bs,
                                dataset = ds, len = n,
                                smiles_column = first_column,
                                label_columns = other_columns,
                                num_labels = int (length other_columns)\<rparr>))))))"

definition RegressionDataset_len :: "'s RegressionDataset \<Rightarrow> int" where
  "RegressionDataset_len self = len self"

text \<open>
  \<^verbatim>\<open>_clean_property\<close> (it does not use \<^verbatim>\<open>self\<close>). The \<^verbatim>\<open>or\<close> chain stops at its
  first true operand, so \<^verbatim>\<open>None\<close> never reaches \<^verbatim>\<open>math.isnan\<close>.
\<close>

definition clean_property :: "pyval \<Rightarrow> error + pyval" where
  "clean_property x =
     (if x = PNone then Inr (PInt 0)
      else (case math_isnan x of
              Inl e \<Rightarrow> Inl e
            | Inr True \<Rightarrow> Inr (PInt 0)
            | Inr False \<Rightarrow>
                (case math_isinf x of
                   Inl e \<Rightarrow> Inl e
                 | Inr True \<Rightarrow> Inr (PInt 0)
                 | Inr False \<Rightarrow> Inr x)))"

text \<open>
  The list comprehension of \<^verbatim>\<open>preprocess\<close>: for each label column in order, the cell
  of the row (\<^verbatim>\<open>KeyError\<close> when the row has no such key) through \<^verbatim>\<open>_clean_property\<close>;
  the first exception ends it.
\<close>

fun clean_labels :: "row \<Rightarrow> string list \<Rightarrow> error + pyval list" where
  "clean_labels line [] = Inr []"
| "clean_labels line (label_column # cols) =
     (case map_of line label_column of
        None \<Rightarrow> Inl (KeyError label_column)
      | Some x \<Rightarrow>
          (case clean_property x of
             Inl e \<Rightarrow> Inl e
           | Inr v \<Rightarrow>
               (case clean_labels line cols of
                  Inl e \<Rightarrow> Inl e
                | Inr vs \<Rightarrow> Inr (v # vs))))"

definition RegressionDataset_preprocess ::
  "'s RegressionDataset \<Rightarrow> row \<Rightarrow> 's
     \<Rightarrow> (error + (string \<times> tensor) list) \<times> 's RegressionDataset \<times> 's" where
  "RegressionDataset_preprocess self line s =
     (case map_of line (smiles_column self) of
        None \<Rightarrow> (Inl (KeyError (smiles_column self)), self, s)
      | Some text \<Rightarrow>
          (case tokenizer self text
                  \<lparr>add_special_tokens = True, truncation = True,
                   padding = Some ''max_length'', max_length = block_size self\<rparr> s of
             (Inl e, s') \<Rightarrow> (Inl e, self, s')
           | (Inr batch_encoding, s') \<Rightarrow>
               (case clean_labels line (label_columns self) of
                  Inl e \<Rightarrow> (Inl e, self, s')
                | Inr labels \<Rightarrow>
                    (case torch_tensor labels of
                       Inl e \<Rightarrow> (Inl e, self, s')
                     | Inr label \<Rightarrow>
                         (case tensor_items
                                 (AList.update ''label'' (TensorValue label)
                                    (map (\<lambda>(k, ids). (k, IdList ids)) batch_encoding)) of
                            Inl e \<Rightarrow> (Inl e, self, s')
                          | Inr example \<Rightarrow> (Inr example, self, s'))))))"

definition RegressionDataset_getitem ::
  "'s RegressionDataset \<Rightarrow> int \<Rightarrow> 's
     \<Rightarrow> (error + (string \<times> tensor) list) \<times> 's RegressionDataset \<times> 's" where
  "RegressionDataset_getitem self i s =
     (case dataset_getitem (dataset self) i of
        Inl e \<Rightarrow> (Inl e, self, s)
      | Inr line \<Rightarrow> RegressionDataset_preprocess self line s)"

section \<open>Contract of the tokenizer\<close>

text \<open>
  What \<^verbatim>\<open>RegressionDataset\<close> relies on from the tokenizer it is given: with
  \<^verbatim>\<open>truncation=True\<close> and \<^verbatim>\<open>padding="max_length"\<close>, every field of a returned
  encoding has exactly \<^verbatim>\<open>max_length\<close> entries. It speaks only of calls that return.
\<close>

definition pads_to_max_length :: "'s tokenizer \<Rightarrow> bool" where
  "pads_to_max_length tok =
     (\<forall>x opts s enc s'.
        tok x opts s = (Inr enc, s') \<and> truncation opts \<and> padding opts = Some ''max_length''
        \<longrightarrow> (\<forall>(k, ids) \<in> set enc. int (length ids) = max_length opts))"

text \<open>
  A cell that \<^verbatim>\<open>_clean_property\<close> accepts: anything but a \<^verbatim>\<open>str\<close> or an int too
  large for a double. A cell that also fits a tensor: an int among them is within 64
  bits.
\<close>

fun cleanable :: "pyval \<Rightarrow> bool" where
  "cleanable (PStr t) = False"
| "cleanable (PInt n) = fits_double n"
| "cleanable x = True"


section \<open>Example inputs\<close>

text \<open>
  A small tokenizer for the examples: one id per character between the two special
  tokens \<open>0\<close> and \<open>2\<close>, the characters cut to fit \<^verbatim>\<open>max_length\<close> under truncation,
  the pad id \<open>1\<close> up to \<^verbatim>\<open>max_length\<close> under padding. It keeps its state (a call
  counter it never advances) and rejects anything but a \<^verbatim>\<open>str\<close>.
\<close>

definition example_tokenizer :: "nat tokenizer" where
  "example_tokenizer x opts s =
     (case x of
        PStr text \<Rightarrow>
          (if max_length opts < 2 then (Inl (ValueError ''max_length''), s)
           else
             (let body = map (\<lambda>c. int (of_char c :: nat)) text;
                  cut = (if truncation opts then take (nat (max_length opts) - 2) body else body);
                  ids = 0 # cut @ [2];
                  pad = (if padding opts = Some ''max_length''
                         then nat (max_length opts) - length ids else 0)
              in (Inr [(''input_ids'', ids @ replicate pad 1),
                       (''attention_mask'', replicate (length ids) 1 @ replicate pad 0)], s)))
      | _ \<Rightarrow> (Inl (ValueError ''text input must be of type str''), s))"

text \<open>
  A file system with a text file, three csv files, a directory holding two files and a
  subdirectory, a directory without read permission, and a device.
\<close>

definition example_fs :: filesystem where
  "example_fs p =
     (if p = ''data'' then Some (Directory [''a'', ''b'', ''sub''])
      else if p = ''data/sub'' then Some (Directory [])
      else if p = ''locked'' then Some UnreadableDirectory
      else if p \<in> set [''data/a'', ''data/b'', ''lines.txt'', ''labels.csv'', ''bad.csv'',
                        ''big.csv'']
        then Some RegularFile
      else if p = ''/dev/null'' then Some Special
      else None)"

text \<open>
  The text file holds the lines \<^verbatim>\<open>hello\<close>, \<^verbatim>\<open>world\<close>, \<^verbatim>\<open>foo bar baz\<close>. The text
  builder yields each as a dict with the key \<^verbatim>\<open>text\<close> and the line with its newline
  (\<open>CHR 0x0A\<close>). Given the listing of \<^verbatim>\<open>data\<close>, this loader fails on the subdirectory
  in it.
\<close>

definition example_text_rows :: "text_row list" where
  "example_text_rows =
     [[(''text'', ''hello'' @ [CHR 0x0A])],
      [(''text'', ''world'' @ [CHR 0x0A])],
      [(''text'', ''foo bar baz'' @ [CHR 0x0A])]]"

definition example_text_loader :: "text_row loader" where
  "example_text_loader fmt files =
     (if fmt = ''text'' \<and> files = SinglePath ''lines.txt''
      then Inr [(''train'', \<lparr>features = [''text''], rows = example_text_rows\<rparr>)]
      else if fmt = ''text'' \<and> files = PathList [''data/a'', ''data/b'', ''data/sub'']
      then Inl (OtherError ''IsADirectoryError'')
      else Inl (OtherError ''FileNotFoundError''))"

text \<open>
  \<^verbatim>\<open>labels.csv\<close> has the header \<^verbatim>\<open>text,y1,y2\<close> and the rows \<^verbatim>\<open>a,1.0,nan\<close> and
  \<^verbatim>\<open>b,2.0,3.0\<close>; the csv builder reads the cell \<^verbatim>\<open>nan\<close> as a missing value, which a
  row shows as \<^verbatim>\<open>None\<close>. \<^verbatim>\<open>bad.csv\<close> has the header \<^verbatim>\<open>text,y1\<close> and the row
  \<^verbatim>\<open>c,abc\<close>, whose label stays a string. \<^verbatim>\<open>big.csv\<close> has the header \<^verbatim>\<open>text,y\<close> and
  the row \<^verbatim>\<open>d,1e39\<close>. The floats are written as their bits: \<open>1.0\<close> is
  \<open>0x3FF0000000000000\<close>, \<open>2.0\<close> is \<open>0x4000000000000000\<close>, \<open>3.0\<close> is
  \<open>0x4008000000000000\<close>, \<open>3.5\<close> is \<open>0x400C000000000000\<close>, \<open>1e39\<close> is
  \<open>0x48078287F49C4A1D\<close>, a NaN is \<open>0x7FF8000000000000\<close>, the infinities are
  \<open>0x7FF0000000000000\<close> and \<open>0xFFF0000000000000\<close>.
\<close>

definition example_csv_loader :: "row loader" where
  "example_csv_loader fmt files =
     (if fmt = ''csv'' \<and> files = SinglePath ''labels.csv''
      then Inr [(''train'',
                 \<lparr>features = [''text'', ''y1'', ''y2''],
                  rows = [[(''text'', PStr ''a''), (''y1'', PFloat 0x3FF0000000000000),
                           (''y2'', PNone)],
                          [(''text'', PStr ''b''), (''y1'', PFloat 0x4000000000000000),
                           (''y2'', PFloat 0x4008000000000000)]]\<rparr>)]
      else if fmt = ''csv'' \<and> files = SinglePath ''bad.csv''
      then Inr [(''train'',
                 \<lparr>features = [''text'', ''y1''],
                  rows = [[(''text'', PStr ''c''), (''y1'', PStr ''abc'')]]\<rparr>)]
      else if fmt = ''csv'' \<and> files = SinglePath ''big.csv''
      then Inr [(''train'',
                 \<lparr>features = [''text'', ''y''],
                  rows = [[(''text'', PStr ''d''), (''y'', PFloat 0x48078287F49C4A1D)]]\<rparr>)]
      else Inl (OtherError ''FileNotFoundError''))"

text \<open>The adapters that the constructors build from these files with block size 8.\<close>

definition example_text_dataset :: "(nat, text_row) RawTextDataset" where
  "example_text_dataset =
     \<lparr>tokenizer = example_tokenizer, file_path = ''lines.txt'', block_size = 8,
      dataset = \<lparr>features = [''text''], rows = example_text_rows\<rparr>,
      len = 3\<rparr>"

definition example_regression_dataset :: "nat RegressionDataset" where
  "example_regression_dataset =
     \<lparr>tokenizer = example_tokenizer, file_path = ''labels.csv'', block_size = 8,
      dataset =
        \<lparr>features = [''text'', ''y1'', ''y2''],
         rows = [[(''text'', PStr ''a''), (''y1'', PFloat 0x3FF0000000000000),
                  (''y2'', PNone)],
                 [(''text'', PStr ''b''), (''y1'', PFloat 0x4000000000000000),
                  (''y2'', PFloat 0x4008000000000000)]]\<rparr>,
      len = 2,
      smiles_column = ''text'', label_columns = [''y1'', ''y2''], num_labels = 2\<rparr>"

definition example_bad_dataset :: "nat RegressionDataset" where
  "example_bad_dataset =
     \<lparr>tokenizer = example_tokenizer, file_path = ''bad.csv'', block_size = 8,
      dataset = \<lparr>features = [''text'', ''y1''],
                 rows = [[(''text'', PStr ''c''), (''y1'', PStr ''abc'')]]\<rparr>,
      len = 1,
      smiles_column = ''text'', label_columns = [''y1''], num_labels = 1\<rparr>"


section \<open>Lemmas\<close>

subsection \<open>Files, rows and labels\<close>

lemma isdir_iff:
  "isdir fs p \<longleftrightarrow> (\<exists>entries. fs p = Some (Directory entries)) \<or> fs p = Some UnreadableDirectory"
  by (auto simp: isdir_def split: option.splits node.splits)

lemma get_data_files_directory:
  "fs p = Some (Directory entries) \<Longrightarrow>
   get_data_files fs p = Inr (PathList (map (path_join p) entries))"
  by (simp add: get_data_files_def isdir_def listdir_def)

lemma get_data_files_invalid:
  "\<not> isdir fs p \<Longrightarrow> \<not> isfile fs p \<Longrightarrow>
   get_data_files fs p = Inl (ValueError ''Please pass in a proper train path'')"
  by (simp add: get_data_files_def)

lemma path_join_plain:
  "d \<noteq> [] \<Longrightarrow> last d \<noteq> CHR ''/'' \<Longrightarrow> e = [] \<or> hd e \<noteq> CHR ''/'' \<Longrightarrow>
   path_join d e = d @ ''/'' @ e"
  by (auto simp: path_join_def)

lemma dataset_getitem_valid:
  "0 \<le> i \<Longrightarrow> i < int (length (rows ds)) \<Longrightarrow> dataset_getitem ds i = Inr (rows ds ! nat i)"
  by (simp add: dataset_getitem_def Let_def)

lemma RegressionDataset_init_fields:
  assumes "RegressionDataset_init fs ld tok path bs = (out, Inr self)"
  shows "tokenizer self = tok \<and> block_size self = bs \<and> file_path self = path
         \<and> len self = int (length (rows (dataset self)))
         \<and> features (dataset self) = smiles_column self # label_columns self
         \<and> num_labels self = int (length (label_columns self))"
  using assms
  by (auto simp: RegressionDataset_init_def Let_def split: sum.splits option.splits list.splits)


lemma clean_property_cleanable:
  "cleanable x \<Longrightarrow> \<exists>v. clean_property x = Inr v"
  by (cases x) (auto simp: clean_property_def split: sum.splits bool.splits)

lemma clean_labels_total:
  "\<forall>c \<in> set cols. \<exists>x. map_of line c = Some x \<and> cleanable x \<Longrightarrow>
   \<exists>vs. clean_labels line cols = Inr vs"
proof (induction cols)
  case Nil
  show ?case by simp
next
  case (Cons c cols)
  from Cons.prems obtain x where x: "map_of line c = Some x" "cleanable x" by auto
  from clean_property_cleanable [OF x(2)] obtain v where v: "clean_property x = Inr v" ..
  from Cons obtain vs where "clean_labels line cols = Inr vs" by auto
  with x v show ?case by simp
qed

lemma clean_labels_str:
  "c \<in> set cols \<Longrightarrow> map_of line c = Some (PStr t) \<Longrightarrow> \<exists>e. clean_labels line cols = Inl e"
  by (induction cols) (auto simp: clean_property_def split: option.splits sum.splits)

lemma clean_labels_first_str:
  "clean_labels line pre = Inr vs \<Longrightarrow> map_of line c = Some (PStr t) \<Longrightarrow>
   clean_labels line (pre @ c # post) = Inl TypeError"
  by (induction pre arbitrary: vs) (auto simp: clean_property_def split: option.splits sum.splits)

lemma filter_update_other:
  "filter (\<lambda>p. fst p \<noteq> k) (AList.update k v xs) = filter (\<lambda>p. fst p \<noteq> k) xs"
  by (induction xs) auto

lemmas float_class_defs = float_isnan_def float_isinf_def exponent_bits_def fraction_bits_def

lemmas float_conv_defs = float32_round_def round_sig_def double_of_def signed_bits_def
  exponent_bits_def fraction_bits_def sign_bit_def double_of_int_def Let_def

lemmas repr_defs = Let_def repr_str_def repr_quote_def repr_char_def hex_digit_def str_dict_def

subsection \<open>Tensors\<close>




lemma traverse_as_int64_ids:
  "traverse as_int64 (map PInt ids) = Inr ys \<longleftrightarrow> ys = map PInt ids \<and> (\<forall>n \<in> set ids. int64 n)"
  by (induction ids arbitrary: ys) (auto split: sum.splits)

lemma torch_tensor_ids:
  "torch_tensor (map PInt ids) = Inr t \<longleftrightarrow> t = Tensor (map PInt ids) \<and> (\<forall>n \<in> set ids. int64 n)"
proof (cases ids)
  case Nil
  then show ?thesis by (auto simp: torch_tensor_def)
next
  case (Cons n ns)
  have no_float: "\<not> list_ex is_float (map PInt ids)" and numbers: "\<not> list_ex (\<lambda>x. \<not> is_number x) (map PInt ids)"
    by (simp_all add: list_ex_iff)
  have some_int: "list_ex is_int (map PInt ids)" using Cons by (simp add: list_ex_iff)
  show ?thesis
  proof (cases "\<forall>n \<in> set ids. int64 n")
    case True
    then have "traverse as_int64 (map PInt ids) = Inr (map PInt ids)"
      by (simp add: traverse_as_int64_ids)
    with True no_float numbers some_int show ?thesis
      by (auto simp: torch_tensor_def)
  next
    case False
    then have "\<And>ys. traverse as_int64 (map PInt ids) \<noteq> Inr ys"
      by (simp add: traverse_as_int64_ids)
    with False no_float numbers some_int show ?thesis
      by (auto simp: torch_tensor_def split: sum.splits)
  qed
qed

lemma tensor_items_Nil: "tensor_items [] = Inr []"
  by (simp add: tensor_items_def)

lemma tensor_items_Cons:
  "tensor_items ((k, v) # kvs) =
     (case torch_tensor_of v of
        Inl e \<Rightarrow> Inl e
      | Inr t \<Rightarrow> (case tensor_items kvs of Inl e \<Rightarrow> Inl e | Inr r \<Rightarrow> Inr ((k, t) # r)))"
  by (simp add: tensor_items_def split: sum.splits)


lemma tensor_items_filter:
  "tensor_items kvs = Inr r \<Longrightarrow>
   tensor_items (filter (\<lambda>p. P (fst p)) kvs) = Inr (filter (\<lambda>p. P (fst p)) r)"
proof (induction kvs arbitrary: r)
  case Nil
  then show ?case by (simp add: tensor_items_Nil)
next
  case (Cons kv kvs)
  obtain k v where kv: "kv = (k, v)" by (cases kv)
  from Cons.prems obtain t r' where t: "torch_tensor_of v = Inr t"
    and r': "tensor_items kvs = Inr r'" and r: "r = (k, t) # r'"
    by (auto simp: kv tensor_items_Cons split: sum.splits)
  from Cons.IH [OF r'] t r show ?case
    by (simp add: kv tensor_items_Cons)
qed

lemma tensor_items_ids:
  "tensor_items (map (\<lambda>(k, ids). (k, IdList ids)) enc) = Inr r \<Longrightarrow>
   r = map (\<lambda>(k, ids). (k, Tensor (map PInt ids))) enc"
proof (induction enc arbitrary: r)
  case Nil
  then show ?case by (simp add: tensor_items_Nil)
next
  case (Cons kv enc)
  obtain k ids where kv: "kv = (k, ids)" by (cases kv)
  from Cons.prems obtain t r' where t: "torch_tensor (map PInt ids) = Inr t"
    and r': "tensor_items (map (\<lambda>(k, ids). (k, IdList ids)) enc) = Inr r'"
    and r: "r = (k, t) # r'"
    by (auto simp: kv tensor_items_Cons split: sum.splits)
  from t have "t = Tensor (map PInt ids)" by (simp add: torch_tensor_ids)
  with Cons.IH [OF r'] r show ?case by (simp add: kv)
qed











lemma filter_map_ids:
  "filter (\<lambda>p. fst p \<noteq> k0) (map (\<lambda>(k, ids). (k, IdList ids)) enc)
     = map (\<lambda>(k, ids). (k, IdList ids)) (filter (\<lambda>p. fst p \<noteq> k0) enc)"
  by (induction enc) auto

subsection \<open>What a call returns\<close>

lemma pads_to_max_lengthD:
  "pads_to_max_length tok \<Longrightarrow> tok x opts s = (Inr enc, s') \<Longrightarrow> truncation opts \<Longrightarrow>
   padding opts = Some ''max_length'' \<Longrightarrow> (k, ids) \<in> set enc \<Longrightarrow>
   int (length ids) = max_length opts"
  unfolding pads_to_max_length_def by blast

lemma RegressionDataset_valid_row:
  assumes init: "RegressionDataset_init fs csv_loader tok path bs = (out, Inr self)"
    and lo: "0 \<le> i" and hi: "i < RegressionDataset_len self"
  shows "dataset_getitem (dataset self) i = Inr (rows (dataset self) ! nat i)"
proof -
  from RegressionDataset_init_fields [OF init]
  have "len self = int (length (rows (dataset self)))" by simp
  with hi have "i < int (length (rows (dataset self)))"
    by (simp add: RegressionDataset_len_def)
  with lo show ?thesis by (rule dataset_getitem_valid)
qed

lemma RegressionDataset_getitem_Inr:
  assumes row: "dataset_getitem (dataset self) i = Inr line"
    and res: "fst (RegressionDataset_getitem self i s) = Inr example"
  shows "\<exists>text enc s' labels label.
           map_of line (smiles_column self) = Some text
           \<and> tokenizer self text
                \<lparr>add_special_tokens = True, truncation = True,
                 padding = Some ''max_length'', max_length = block_size self\<rparr> s = (Inr enc, s')
           \<and> clean_labels line (label_columns self) = Inr labels
           \<and> torch_tensor labels = Inr label
           \<and> tensor_items (AList.update ''label'' (TensorValue label)
                             (map (\<lambda>(k, ids). (k, IdList ids)) enc)) = Inr example"
  using assms
  by (auto simp: RegressionDataset_getitem_def RegressionDataset_preprocess_def
      split: option.splits sum.splits prod.splits)


lemma other_fields:
  assumes "tensor_items (AList.update k0 v0 (map (\<lambda>(k, ids). (k, IdList ids)) enc)) = Inr example"
  shows "filter (\<lambda>p. fst p \<noteq> k0) example
           = map (\<lambda>(k, ids). (k, Tensor (map PInt ids))) (filter (\<lambda>p. fst p \<noteq> k0) enc)"
proof -
  from tensor_items_filter [OF assms, where P = "\<lambda>k. k \<noteq> k0"]
  have "tensor_items (map (\<lambda>(k, ids). (k, IdList ids)) (filter (\<lambda>p. fst p \<noteq> k0) enc))
          = Inr (filter (\<lambda>p. fst p \<noteq> k0) example)"
    by (simp only: filter_update_other filter_map_ids)
  then show ?thesis by (rule tensor_items_ids)
qed

subsection \<open>The example inputs\<close>

lemma example_tokenizer_pads: "pads_to_max_length example_tokenizer"
  unfolding pads_to_max_length_def
  by (auto simp: example_tokenizer_def Let_def split: pyval.splits if_splits)

lemma example_text_init:
  "RawTextDataset_init example_fs example_text_loader example_tokenizer ''lines.txt'' 8
     = ([''Loaded Dataset'', ''Number of lines: 3'', ''Block size: 8''],
        Inr example_text_dataset)"
  by (simp add: RawTextDataset_init_def get_data_files_def isdir_def isfile_def example_fs_def
      example_text_loader_def example_text_dataset_def example_text_rows_def str_int_def)

lemma example_regression_init:
  "RegressionDataset_init example_fs example_csv_loader example_tokenizer ''labels.csv'' 8
     = ([''init dataset'', ''Loaded Dataset'', ''Number of lines: 2'', ''Block size: 8''],
        Inr example_regression_dataset)"
  by (simp add: RegressionDataset_init_def get_data_files_def isdir_def isfile_def example_fs_def
      example_csv_loader_def example_regression_dataset_def str_int_def)


lemmas getitem_defs =
  RawTextDataset_getitem_def RawTextDataset_preprocess_def
  RegressionDataset_getitem_def RegressionDataset_preprocess_def
  dataset_getitem_def

lemma example_str_0:
  "str_dict [(''text'', ''hello'' @ [CHR 0x0A])]
     = ''{'' @ [CHR 0x27] @ ''text'' @ [CHR 0x27] @ '': '' @ [CHR 0x27] @ ''hello''
         @ [CHR 0x5C] @ ''n'' @ [CHR 0x27] @ ''}''"
  by (simp add: repr_defs)

lemma example_str_1:
  "str_dict [(''text'', ''world'' @ [CHR 0x0A])]
     = ''{'' @ [CHR 0x27] @ ''text'' @ [CHR 0x27] @ '': '' @ [CHR 0x27] @ ''world''
         @ [CHR 0x5C] @ ''n'' @ [CHR 0x27] @ ''}''"
  by (simp add: repr_defs)

lemma example_str_2:
  "str_dict [(''text'', ''foo bar baz'' @ [CHR 0x0A])]
     = ''{'' @ [CHR 0x27] @ ''text'' @ [CHR 0x27] @ '': '' @ [CHR 0x27] @ ''foo bar baz''
         @ [CHR 0x5C] @ ''n'' @ [CHR 0x27] @ ''}''"
  by (simp add: repr_defs)

lemma example_tokenizer_printed:
  "example_tokenizer
     (PStr (''{'' @ [CHR 0x27] @ ''text'' @ [CHR 0x27] @ '': '' @ [CHR 0x27] @ line
            @ [CHR 0x5C] @ ''n'' @ [CHR 0x27] @ ''}''))
     \<lparr>add_special_tokens = True, truncation = True, padding = None, max_length = 8\<rparr> s
   = (Inr [(''input_ids'', [0, 123, 39, 116, 101, 120, 116, 2]),
           (''attention_mask'', [1, 1, 1, 1, 1, 1, 1, 1])], s)"
  by (simp add: example_tokenizer_def eval_nat_numeral)

lemma example_tokenizer_line:
  "example_tokenizer (PStr (''hello'' @ [CHR 0x0A]))
     \<lparr>add_special_tokens = True, truncation = True, padding = None, max_length = 8\<rparr> s
   = (Inr [(''input_ids'', [0, 104, 101, 108, 108, 111, 10, 2]),
           (''attention_mask'', [1, 1, 1, 1, 1, 1, 1, 1])], s)"
  by (simp add: example_tokenizer_def eval_nat_numeral)

lemma example_ids_tensor:
  "torch_tensor [PInt 0, PInt 123, PInt 39, PInt 116, PInt 101, PInt 120, PInt 116, PInt 2]
     = Inr (Tensor [PInt 0, PInt 123, PInt 39, PInt 116, PInt 101, PInt 120, PInt 116, PInt 2])"
  using torch_tensor_ids [of "[0, 123, 39, 116, 101, 120, 116, 2]"
      "Tensor [PInt 0, PInt 123, PInt 39, PInt 116, PInt 101, PInt 120, PInt 116, PInt 2]"]
  by (simp add: int64_def)

lemma example_text_getitem_0:
  "RawTextDataset_getitem example_text_dataset 0 0
     = (Inr (Tensor [PInt 0, PInt 123, PInt 39, PInt 116, PInt 101, PInt 120, PInt 116, PInt 2]),
        example_text_dataset, 0)"
  by (simp add: getitem_defs example_text_dataset_def example_text_rows_def
      example_str_0 example_tokenizer_printed example_ids_tensor del: append.simps)

lemma example_text_getitem_1:
  "RawTextDataset_getitem example_text_dataset 1 0
     = (Inr (Tensor [PInt 0, PInt 123, PInt 39, PInt 116, PInt 101, PInt 120, PInt 116, PInt 2]),
        example_text_dataset, 0)"
  by (simp add: getitem_defs example_text_dataset_def example_text_rows_def
      example_str_1 example_tokenizer_printed example_ids_tensor del: append.simps)

lemma example_text_getitem_2:
  "RawTextDataset_getitem example_text_dataset 2 0
     = (Inr (Tensor [PInt 0, PInt 123, PInt 39, PInt 116, PInt 101, PInt 120, PInt 116, PInt 2]),
        example_text_dataset, 0)"
  by (simp add: getitem_defs example_text_dataset_def example_text_rows_def
      example_str_2 example_tokenizer_printed example_ids_tensor del: append.simps)

lemma example_tokenizer_padded:
  "example_tokenizer (PStr [c])
     \<lparr>add_special_tokens = True, truncation = True, padding = Some ''max_length'',
      max_length = 8\<rparr> s
   = (Inr [(''input_ids'', [0, int (of_char c :: nat), 2, 1, 1, 1, 1, 1]),
           (''attention_mask'', [1, 1, 1, 0, 0, 0, 0, 0])], s)"
  by (simp add: example_tokenizer_def eval_nat_numeral)

lemma example_clean_labels_0:
  "clean_labels [(''text'', PStr ''a''), (''y1'', PFloat 0x3FF0000000000000), (''y2'', PNone)]
     [''y1'', ''y2'']
   = Inr [PFloat 0x3FF0000000000000, PInt 0]"
  by (simp add: clean_property_def float_class_defs)



lemma float32_round_one: "float32_round 0x3FF0000000000000 = 0x3FF0000000000000"
  by (simp add: float_conv_defs bit_length.simps)



lemma float32_round_zero: "float32_round 0 = 0"
  by (simp add: float_conv_defs bit_length.simps)


lemma double_of_int_zero: "double_of_int 0 = 0"
  by (simp add: float_conv_defs bit_length.simps)

lemma example_label_tensor_0:
  "torch_tensor [PFloat 0x3FF0000000000000, PInt 0]
     = Inr (Tensor [PFloat 0x3FF0000000000000, PFloat 0])"
  by (simp add: torch_tensor_def as_float32_def fits_double_def float32_round_one
      float32_round_zero double_of_int_zero)



lemma example_field_tensor:
  "torch_tensor [PInt 0, PInt n, PInt 2, PInt 1, PInt 1, PInt 1, PInt 1, PInt 1]
     = (if int64 n
        then Inr (Tensor [PInt 0, PInt n, PInt 2, PInt 1, PInt 1, PInt 1, PInt 1, PInt 1])
        else Inl (RuntimeError ''Overflow when unpacking long''))"
  by (simp add: torch_tensor_def int64_def)

lemma example_mask_tensor:
  "torch_tensor [PInt 1, PInt 1, PInt 1, PInt 0, PInt 0, PInt 0, PInt 0, PInt 0]
     = Inr (Tensor [PInt 1, PInt 1, PInt 1, PInt 0, PInt 0, PInt 0, PInt 0, PInt 0])"
  by (simp add: torch_tensor_def int64_def)

lemmas example_regression_simps =
  getitem_defs example_tokenizer_padded tensor_items_Cons tensor_items_Nil
  example_field_tensor example_mask_tensor int64_def

lemma example_regression_getitem_0:
  "RegressionDataset_getitem example_regression_dataset 0 0
     = (Inr [(''input_ids'', Tensor [PInt 0, PInt 97, PInt 2, PInt 1, PInt 1, PInt 1, PInt 1, PInt 1]),
             (''attention_mask'', Tensor [PInt 1, PInt 1, PInt 1, PInt 0, PInt 0, PInt 0, PInt 0, PInt 0]),
             (''label'', Tensor [PFloat 0x3FF0000000000000, PFloat 0])],
        example_regression_dataset, 0)"
  by (simp add: example_regression_simps example_regression_dataset_def
      example_clean_labels_0 example_label_tensor_0 del: clean_labels.simps)



lemma example_bad_getitem_0:
  "RegressionDataset_getitem example_bad_dataset 0 0 = (Inl TypeError, example_bad_dataset, 0)"
  by (simp add: getitem_defs example_bad_dataset_def example_tokenizer_padded clean_property_def)

section \<open>The claims\<close>

subsection \<open>Label cleaning\<close>




subsection \<open>The file resolver\<close>

text \<open>
  Claim C5, as stated, says that the list comes back for every path that names a
  directory. A directory without read permission is one for \<^verbatim>\<open>os.path.isdir\<close>, and
  \<^verbatim>\<open>os.listdir\<close> raises \<^verbatim>\<open>PermissionError\<close> on it, which \<^verbatim>\<open>get_data_files\<close> lets
  through.
\<close>

theorem get_data_files_unreadable_counterexample:
  "isdir example_fs ''locked''
   \<and> get_data_files example_fs ''locked'' = Inl PermissionError"
  by (simp add: get_data_files_def isdir_def listdir_def example_fs_def)

text \<open>
  Claim C5, amended: for a path that names a directory, \<^verbatim>\<open>get_data_files\<close> lists the
  directory. When the listing returns, the result is the list of its entries, each joined
  with the directory path, in the order of the listing: when the entries are exactly
  \<open>a\<close>, \<open>b\<close> and \<open>c\<close>, the result holds exactly the three joined paths, and for a
  directory path that does not end in a slash the joined path is the directory, a slash
  and the entry. When the listing raises, \<^verbatim>\<open>get_data_files\<close> raises the same exception.
\<close>

theorem get_data_files_isdir:
  assumes "isdir fs d"
  shows "(\<forall>entries. listdir fs d = Inr entries \<longrightarrow>
            get_data_files fs d = Inr (PathList (map (path_join d) entries))
            \<and> (\<forall>a b c. set entries = {a, b, c} \<longrightarrow>
                 (\<exists>files. get_data_files fs d = Inr (PathList files)
                    \<and> set files = {path_join d a, path_join d b, path_join d c}))
            \<and> (d \<noteq> [] \<and> last d \<noteq> CHR ''/'' \<and> (\<forall>e \<in> set entries. e = [] \<or> hd e \<noteq> CHR ''/'')
                 \<longrightarrow> get_data_files fs d = Inr (PathList (map (\<lambda>e. d @ ''/'' @ e) entries))))
         \<and> (\<forall>err. listdir fs d = Inl err \<longrightarrow> get_data_files fs d = Inl err)"
proof (intro conjI allI impI)
  fix entries
  assume ls: "listdir fs d = Inr entries"
  show res: "get_data_files fs d = Inr (PathList (map (path_join d) entries))"
    using assms ls by (simp add: get_data_files_def)
  show "\<exists>files. get_data_files fs d = Inr (PathList files)
          \<and> set files = {path_join d a, path_join d b, path_join d c}"
    if "set entries = {a, b, c}" for a b c
    using res that by auto
  show "get_data_files fs d = Inr (PathList (map (\<lambda>e. d @ ''/'' @ e) entries))"
    if "d \<noteq> [] \<and> last d \<noteq> CHR ''/'' \<and> (\<forall>e \<in> set entries. e = [] \<or> hd e \<noteq> CHR ''/'')"
    using res that by (auto simp: path_join_plain)
next
  fix err
  assume "listdir fs d = Inl err"
  with assms show "get_data_files fs d = Inl err"
    by (simp add: get_data_files_def)
qed

text \<open>
  The amended claim C5 on the example directory \<^verbatim>\<open>data\<close>, whose listing returns, and
  on \<^verbatim>\<open>locked\<close>, whose listing raises.
\<close>

theorem get_data_files_isdir_witness:
  "isdir example_fs ''data''
   \<and> listdir example_fs ''data'' = Inr [''a'', ''b'', ''sub'']
   \<and> get_data_files example_fs ''data'' = Inr (PathList [''data/a'', ''data/b'', ''data/sub''])
   \<and> isdir example_fs ''locked''
   \<and> listdir example_fs ''locked'' = Inl PermissionError
   \<and> get_data_files example_fs ''locked'' = Inl PermissionError"
proof -
  have d: "isdir example_fs ''data''" by (simp add: isdir_def example_fs_def)
  have ls: "listdir example_fs ''data'' = Inr [''a'', ''b'', ''sub'']"
    by (simp add: listdir_def example_fs_def)
  have l: "isdir example_fs ''locked''" by (simp add: isdir_def example_fs_def)
  have ll: "listdir example_fs ''locked'' = Inl PermissionError"
    by (simp add: listdir_def example_fs_def)
  from get_data_files_isdir [OF d, THEN conjunct1, rule_format, OF ls, THEN conjunct1]
  have "get_data_files example_fs ''data''
          = Inr (PathList (map (path_join ''data'') [''a'', ''b'', ''sub'']))" .
  then have files: "get_data_files example_fs ''data''
          = Inr (PathList [''data/a'', ''data/b'', ''data/sub''])"
    by (simp add: path_join_def)
  from get_data_files_isdir [OF l, THEN conjunct2, rule_format, OF ll]
  have locked: "get_data_files example_fs ''locked'' = Inl PermissionError" .
  from d ls files l ll locked show ?thesis by (intro conjI)
qed

text \<open>
  Claim C6: for a path that names a regular file, \<^verbatim>\<open>get_data_files\<close> returns that path
  itself, and not a list holding it.
\<close>

theorem get_data_files_isfile:
  assumes "isfile fs f"
  shows "get_data_files fs f = Inr (SinglePath f)
         \<and> get_data_files fs f \<noteq> Inr (PathList [f])"
  using assms by (simp add: get_data_files_def isfile_def isdir_def)

text \<open>Claim C6 on the example file \<^verbatim>\<open>lines.txt\<close>.\<close>

theorem get_data_files_isfile_witness:
  "isfile example_fs ''lines.txt''
   \<and> get_data_files example_fs ''lines.txt'' = Inr (SinglePath ''lines.txt'')"
proof -
  have f: "isfile example_fs ''lines.txt''" by (simp add: isfile_def example_fs_def)
  from f get_data_files_isfile [OF f] show ?thesis by simp
qed

text \<open>
  Claim C7: for a path that names neither a directory nor a regular file,
  \<^verbatim>\<open>get_data_files\<close> raises its \<^verbatim>\<open>ValueError("Please pass in a proper train path")\<close>
  (the invalid-path error), and both constructors, which resolve the path before anything
  else but a print, end with that exception.
\<close>

theorem invalid_path_raises_at_construction:
  assumes "\<not> isdir fs p" and "\<not> isfile fs p"
  shows "get_data_files fs p = Inl (ValueError ''Please pass in a proper train path'')
         \<and> RawTextDataset_init fs text_loader tok p bs
             = ([], Inl (ValueError ''Please pass in a proper train path''))
         \<and> RegressionDataset_init fs csv_loader tok' p bs'
             = ([''init dataset''], Inl (ValueError ''Please pass in a proper train path''))"
  using get_data_files_invalid [OF assms]
  by (simp add: RawTextDataset_init_def RegressionDataset_init_def)

text \<open>Claim C7 on a device and on a path that names nothing.\<close>

theorem invalid_path_raises_at_construction_witness:
  "\<not> isdir example_fs ''/dev/null'' \<and> \<not> isfile example_fs ''/dev/null''
   \<and> \<not> isdir example_fs ''missing'' \<and> \<not> isfile example_fs ''missing''
   \<and> RawTextDataset_init example_fs example_text_loader example_tokenizer ''/dev/null'' 8
       = ([], Inl (ValueError ''Please pass in a proper train path''))
   \<and> RegressionDataset_init example_fs example_csv_loader example_tokenizer ''missing'' 8
       = ([''init dataset''], Inl (ValueError ''Please pass in a proper train path''))"
proof -
  have a: "\<not> isdir example_fs ''/dev/null''" and b: "\<not> isfile example_fs ''/dev/null''"
    by (simp_all add: isdir_def isfile_def example_fs_def)
  have c: "\<not> isdir example_fs ''missing''" and d: "\<not> isfile example_fs ''missing''"
    by (simp_all add: isdir_def isfile_def example_fs_def)
  from a b c d
    invalid_path_raises_at_construction [OF a b, where text_loader = example_text_loader
      and tok = example_tokenizer and bs = 8 and csv_loader = example_csv_loader
      and tok' = example_tokenizer and bs' = 8]
    invalid_path_raises_at_construction [OF c d, where text_loader = example_text_loader
      and tok = example_tokenizer and bs = 8 and csv_loader = example_csv_loader
      and tok' = example_tokenizer and bs' = 8]
  show ?thesis by simp
qed

subsection \<open>The text adapter\<close>

text \<open>
  Claim C1 says that \<^verbatim>\<open>__getitem__\<close> fetches the raw line at index \<open>i\<close>, converts it to
  text and tokenizes that text. It does so only up to what the record is: the record of
  the text dataset is the dict \<^verbatim>\<open>{'text': line}\<close>, \<^verbatim>\<open>__getitem__\<close> hands the whole
  dict to \<^verbatim>\<open>preprocess\<close>, and \<^verbatim>\<open>str\<close> of it is the printed dict, so the tokenizer
  receives the braces, the key and the quotes around the line.
  \<^verbatim>\<open>RegressionDataset.preprocess\<close> indexes its row by the text column before it
  tokenizes. On the example file with block size 8 the printed dict of the first line is
  \<^verbatim>\<open>{'text': 'hello\n'}\<close> (with the newline escaped), the ids of all three lines are
  those of its first six characters, and the line itself would have given other ids.
\<close>

theorem RawTextDataset_getitem_tokenizes_printed_dict:
  "RawTextDataset_init example_fs example_text_loader example_tokenizer ''lines.txt'' 8
     = ([''Loaded Dataset'', ''Number of lines: 3'', ''Block size: 8''],
        Inr example_text_dataset)
   \<and> dataset_getitem (dataset example_text_dataset) 0 = Inr [(''text'', ''hello'' @ [CHR 0x0A])]
   \<and> str_dict [(''text'', ''hello'' @ [CHR 0x0A])]
       = ''{'' @ [CHR 0x27] @ ''text'' @ [CHR 0x27] @ '': '' @ [CHR 0x27] @ ''hello''
           @ [CHR 0x5C] @ ''n'' @ [CHR 0x27] @ ''}''
   \<and> fst (RawTextDataset_getitem example_text_dataset 0 0)
       = Inr (Tensor [PInt 0, PInt 123, PInt 39, PInt 116, PInt 101, PInt 120, PInt 116, PInt 2])
   \<and> fst (RawTextDataset_getitem example_text_dataset 1 0)
       = Inr (Tensor [PInt 0, PInt 123, PInt 39, PInt 116, PInt 101, PInt 120, PInt 116, PInt 2])
   \<and> fst (RawTextDataset_getitem example_text_dataset 2 0)
       = Inr (Tensor [PInt 0, PInt 123, PInt 39, PInt 116, PInt 101, PInt 120, PInt 116, PInt 2])
   \<and> fst (example_tokenizer (PStr (''hello'' @ [CHR 0x0A]))
            \<lparr>add_special_tokens = True, truncation = True, padding = None, max_length = 8\<rparr> 0)
       = Inr [(''input_ids'', [0, 104, 101, 108, 108, 111, 10, 2]),
              (''attention_mask'', [1, 1, 1, 1, 1, 1, 1, 1])]"
proof -
  have row: "dataset_getitem (dataset example_text_dataset) 0
               = Inr [(''text'', ''hello'' @ [CHR 0x0A])]"
    by (simp add: dataset_getitem_def example_text_dataset_def example_text_rows_def
        del: append.simps)
  have g0: "fst (RawTextDataset_getitem example_text_dataset 0 0)
       = Inr (Tensor [PInt 0, PInt 123, PInt 39, PInt 116, PInt 101, PInt 120, PInt 116, PInt 2])"
    by (simp only: example_text_getitem_0 fst_conv)
  have g1: "fst (RawTextDataset_getitem example_text_dataset 1 0)
       = Inr (Tensor [PInt 0, PInt 123, PInt 39, PInt 116, PInt 101, PInt 120, PInt 116, PInt 2])"
    by (simp only: example_text_getitem_1 fst_conv)
  have g2: "fst (RawTextDataset_getitem example_text_dataset 2 0)
       = Inr (Tensor [PInt 0, PInt 123, PInt 39, PInt 116, PInt 101, PInt 120, PInt 116, PInt 2])"
    by (simp only: example_text_getitem_2 fst_conv)
  have line: "fst (example_tokenizer (PStr (''hello'' @ [CHR 0x0A]))
            \<lparr>add_special_tokens = True, truncation = True, padding = None, max_length = 8\<rparr> 0)
       = Inr [(''input_ids'', [0, 104, 101, 108, 108, 111, 10, 2]),
              (''attention_mask'', [1, 1, 1, 1, 1, 1, 1, 1])]"
    by (simp only: example_tokenizer_line fst_conv)
  from example_text_init row example_str_0 g0 g1 g2 line show ?thesis by (intro conjI)
qed

subsection \<open>The label adapter\<close>




text \<open>
  Claim C3: for every index \<open>i\<close> from \<open>0\<close> up to the length, the mapping that
  \<^verbatim>\<open>RegressionDataset.__getitem__\<close> returns holds, apart from \<^verbatim>\<open>label\<close>, exactly the
  fields of the encoding the tokenizer returned for the text cell of row \<open>i\<close> when called
  with \<^verbatim>\<open>add_special_tokens=True\<close>, \<^verbatim>\<open>truncation=True\<close>, \<^verbatim>\<open>padding="max_length"\<close>
  and \<^verbatim>\<open>max_length=block_size\<close>, each as a tensor; with a tokenizer that pads to
  \<^verbatim>\<open>max_length\<close>, each of these fields has exactly \<^verbatim>\<open>block_size\<close> entries.
\<close>

theorem RegressionDataset_getitem_padded:
  assumes init: "RegressionDataset_init fs csv_loader tok path bs = (out, Inr self)"
    and lo: "0 \<le> i" and hi: "i < RegressionDataset_len self"
    and pads: "pads_to_max_length tok"
  shows "\<forall>example. fst (RegressionDataset_getitem self i s) = Inr example \<longrightarrow>
           (\<exists>text enc s'.
               map_of (rows (dataset self) ! nat i) (smiles_column self) = Some text
               \<and> tok text \<lparr>add_special_tokens = True, truncation = True,
                            padding = Some ''max_length'', max_length = bs\<rparr> s = (Inr enc, s')
               \<and> filter (\<lambda>p. fst p \<noteq> ''label'') example
                   = map (\<lambda>(k, ids). (k, Tensor (map PInt ids)))
                       (filter (\<lambda>p. fst p \<noteq> ''label'') enc))
           \<and> (\<forall>(k, t) \<in> set example. k \<noteq> ''label'' \<longrightarrow> int (length (elems t)) = bs)"
proof (intro allI impI)
  fix example
  let ?line = "rows (dataset self) ! nat i"
  let ?opts = "\<lparr>add_special_tokens = True, truncation = True,
                padding = Some ''max_length'', max_length = bs\<rparr>"
  assume res: "fst (RegressionDataset_getitem self i s) = Inr example"
  from RegressionDataset_init_fields [OF init]
  have tk: "tokenizer self = tok" and b: "block_size self = bs" by simp_all
  have row: "dataset_getitem (dataset self) i = Inr ?line"
    using init lo hi by (rule RegressionDataset_valid_row)
  from RegressionDataset_getitem_Inr [OF row res] obtain smiles enc s' label where
    cell: "map_of ?line (smiles_column self) = Some smiles"
    and call: "tok smiles ?opts s = (Inr enc, s')"
    and items: "tensor_items (AList.update ''label'' (TensorValue label)
                                (map (\<lambda>(k, ids). (k, IdList ids)) enc)) = Inr example"
    unfolding tk b by blast
  have others: "filter (\<lambda>p. fst p \<noteq> ''label'') example
                  = map (\<lambda>(k, ids). (k, Tensor (map PInt ids)))
                      (filter (\<lambda>p. fst p \<noteq> ''label'') enc)"
    using items by (rule other_fields)
  have lengths: "\<forall>(k, t) \<in> set example. k \<noteq> ''label'' \<longrightarrow> int (length (elems t)) = bs"
  proof (intro ballI, clarify)
    fix k t
    assume mem: "(k, t) \<in> set example" and k: "k \<noteq> ''label''"
    then have "(k, t) \<in> set (filter (\<lambda>p. fst p \<noteq> ''label'') example)" by simp
    with others obtain ids where ids: "(k, ids) \<in> set enc" and t: "t = Tensor (map PInt ids)"
      by auto
    from pads_to_max_lengthD [OF pads call _ _ ids] have "int (length ids) = bs" by simp
    with t show "int (length (elems t)) = bs" by simp
  qed
  from cell call others lengths
  show "(\<exists>text enc s'.
               map_of ?line (smiles_column self) = Some text
               \<and> tok text ?opts s = (Inr enc, s')
               \<and> filter (\<lambda>p. fst p \<noteq> ''label'') example
                   = map (\<lambda>(k, ids). (k, Tensor (map PInt ids)))
                       (filter (\<lambda>p. fst p \<noteq> ''label'') enc))
           \<and> (\<forall>(k, t) \<in> set example. k \<noteq> ''label'' \<longrightarrow> int (length (elems t)) = bs)"
    by blast
qed

text \<open>
  Claim C3 on the first row of the example csv with \<^verbatim>\<open>block_size=8\<close>: \<^verbatim>\<open>input_ids\<close>
  and \<^verbatim>\<open>attention_mask\<close> have eight entries each.
\<close>

theorem RegressionDataset_getitem_padded_witness:
  "RegressionDataset_init example_fs example_csv_loader example_tokenizer ''labels.csv'' 8
     = ([''init dataset'', ''Loaded Dataset'', ''Number of lines: 2'', ''Block size: 8''],
        Inr example_regression_dataset)
   \<and> (0::int) \<le> 0 \<and> 0 < RegressionDataset_len example_regression_dataset
   \<and> pads_to_max_length example_tokenizer
   \<and> fst (RegressionDataset_getitem example_regression_dataset 0 0)
      = Inr [(''input_ids'', Tensor [PInt 0, PInt 97, PInt 2, PInt 1, PInt 1, PInt 1, PInt 1, PInt 1]),
             (''attention_mask'', Tensor [PInt 1, PInt 1, PInt 1, PInt 0, PInt 0, PInt 0, PInt 0, PInt 0]),
             (''label'', Tensor [PFloat 0x3FF0000000000000, PFloat 0])]
   \<and> int (length (elems (Tensor [PInt 0, PInt 97, PInt 2, PInt 1, PInt 1, PInt 1, PInt 1, PInt 1]))) = 8
   \<and> int (length (elems (Tensor [PInt 1, PInt 1, PInt 1, PInt 0, PInt 0, PInt 0, PInt 0, PInt 0]))) = 8"
proof -
  have lo: "(0::int) \<le> 0" by simp
  have hi: "0 < RegressionDataset_len example_regression_dataset"
    by (simp add: RegressionDataset_len_def example_regression_dataset_def)
  have res: "fst (RegressionDataset_getitem example_regression_dataset 0 0)
      = Inr [(''input_ids'', Tensor [PInt 0, PInt 97, PInt 2, PInt 1, PInt 1, PInt 1, PInt 1, PInt 1]),
             (''attention_mask'', Tensor [PInt 1, PInt 1, PInt 1, PInt 0, PInt 0, PInt 0, PInt 0, PInt 0]),
             (''label'', Tensor [PFloat 0x3FF0000000000000, PFloat 0])]"
    by (simp only: example_regression_getitem_0 fst_conv)
  from RegressionDataset_getitem_padded
    [OF example_regression_init lo hi example_tokenizer_pads, rule_format, OF res]
  have "\<forall>(k, t) \<in> set
      [(''input_ids'', Tensor [PInt 0, PInt 97, PInt 2, PInt 1, PInt 1, PInt 1, PInt 1, PInt 1]),
       (''attention_mask'', Tensor [PInt 1, PInt 1, PInt 1, PInt 0, PInt 0, PInt 0, PInt 0, PInt 0]),
       (''label'', Tensor [PFloat 0x3FF0000000000000, PFloat 0])].
      k \<noteq> ''label'' \<longrightarrow> int (length (elems t)) = 8"
    by (rule conjunct2)
  then have lens:
    "int (length (elems (Tensor [PInt 0, PInt 97, PInt 2, PInt 1, PInt 1, PInt 1, PInt 1, PInt 1]))) = 8
     \<and> int (length (elems (Tensor [PInt 1, PInt 1, PInt 1, PInt 0, PInt 0, PInt 0, PInt 0, PInt 0]))) = 8"
    by simp
  from example_regression_init lo hi example_tokenizer_pads res lens
  show ?thesis by (intro conjI) simp_all
qed

subsection \<open>Implicit behaviour\<close>

text \<open>
  Claim C9: for a directory, \<^verbatim>\<open>get_data_files\<close> joins every entry of the listing with
  the directory path and filters nothing: an entry is in the result whatever it names (a
  regular file, a subdirectory, anything), and the result has as many paths as the listing
  has entries. Both constructors hand exactly this list to the loader: a loader that fails
  on it ends the construction with its exception, and a loader that accepts it provides
  the adapter's dataset.
\<close>

theorem get_data_files_keeps_every_entry:
  assumes dir: "fs d = Some (Directory entries)" and mem: "e \<in> set entries"
  shows "get_data_files fs d = Inr (PathList (map (path_join d) entries))
         \<and> path_join d e \<in> set (map (path_join d) entries)
         \<and> length (map (path_join d) entries) = length entries
         \<and> (\<forall>err. text_loader ''text'' (PathList (map (path_join d) entries)) = Inl err
               \<longrightarrow> RawTextDataset_init fs text_loader tok d bs = ([], Inl err))
         \<and> (\<forall>err. csv_loader ''csv'' (PathList (map (path_join d) entries)) = Inl err
               \<longrightarrow> RegressionDataset_init fs csv_loader tok' d bs' = ([''init dataset''], Inl err))
         \<and> (\<forall>splits ds. text_loader ''text'' (PathList (map (path_join d) entries)) = Inr splits
                 \<and> map_of splits ''train'' = Some ds
               \<longrightarrow> (\<exists>out self. RawTextDataset_init fs text_loader tok d bs = (out, Inr self)
                      \<and> dataset self = ds))
         \<and> (\<forall>splits ds. csv_loader ''csv'' (PathList (map (path_join d) entries)) = Inr splits
                 \<and> map_of splits ''train'' = Some ds \<and> features ds \<noteq> []
               \<longrightarrow> (\<exists>out self. RegressionDataset_init fs csv_loader tok' d bs' = (out, Inr self)
                      \<and> dataset self = ds))"
proof -
  have res: "get_data_files fs d = Inr (PathList (map (path_join d) entries))"
    using dir by (rule get_data_files_directory)
  have inlist: "path_join d e \<in> set (map (path_join d) entries)"
    using mem by simp
  have text_err: "\<forall>err. text_loader ''text'' (PathList (map (path_join d) entries)) = Inl err
               \<longrightarrow> RawTextDataset_init fs text_loader tok d bs = ([], Inl err)"
    by (simp add: RawTextDataset_init_def res)
  have csv_err: "\<forall>err. csv_loader ''csv'' (PathList (map (path_join d) entries)) = Inl err
               \<longrightarrow> RegressionDataset_init fs csv_loader tok' d bs' = ([''init dataset''], Inl err)"
    by (simp add: RegressionDataset_init_def res)
  have text_ok: "\<forall>splits ds. text_loader ''text'' (PathList (map (path_join d) entries)) = Inr splits
                 \<and> map_of splits ''train'' = Some ds
               \<longrightarrow> (\<exists>out self. RawTextDataset_init fs text_loader tok d bs = (out, Inr self)
                      \<and> dataset self = ds)"
    by (simp add: RawTextDataset_init_def res Let_def)
  have csv_ok: "\<forall>splits ds. csv_loader ''csv'' (PathList (map (path_join d) entries)) = Inr splits
                 \<and> map_of splits ''train'' = Some ds \<and> features ds \<noteq> []
               \<longrightarrow> (\<exists>out self. RegressionDataset_init fs csv_loader tok' d bs' = (out, Inr self)
                      \<and> dataset self = ds)"
    by (auto simp: RegressionDataset_init_def res Let_def split: list.splits)
  from res inlist text_err csv_err text_ok csv_ok show ?thesis by simp
qed

text \<open>
  Claim C9 on the example directory \<^verbatim>\<open>data\<close>: its subdirectory \<^verbatim>\<open>sub\<close> is in the
  list, and the example loader, which rejects a directory among its files, ends the
  construction.
\<close>

theorem get_data_files_keeps_every_entry_witness:
  "example_fs ''data'' = Some (Directory [''a'', ''b'', ''sub''])
   \<and> ''sub'' \<in> set [''a'', ''b'', ''sub'']
   \<and> isdir example_fs ''data/sub''
   \<and> get_data_files example_fs ''data'' = Inr (PathList [''data/a'', ''data/b'', ''data/sub''])
   \<and> RawTextDataset_init example_fs example_text_loader example_tokenizer ''data'' 8
       = ([], Inl (OtherError ''IsADirectoryError''))"
proof -
  have dir: "example_fs ''data'' = Some (Directory [''a'', ''b'', ''sub''])"
    by (simp add: example_fs_def)
  have mem: "''sub'' \<in> set [''a'', ''b'', ''sub'']" by simp
  have sub: "isdir example_fs ''data/sub''" by (simp add: isdir_def example_fs_def)
  have joined: "map (path_join ''data'') [''a'', ''b'', ''sub'']
                  = [''data/a'', ''data/b'', ''data/sub'']"
    by (simp add: path_join_def)
  have fails: "example_text_loader ''text'' (PathList [''data/a'', ''data/b'', ''data/sub''])
                 = Inl (OtherError ''IsADirectoryError'')"
    by (simp add: example_text_loader_def)
  note inst = get_data_files_keeps_every_entry [where fs = example_fs and d = "''data''"
        and entries = "[''a'', ''b'', ''sub'']" and e = "''sub''"
        and text_loader = example_text_loader and tok = example_tokenizer and bs = 8
        and csv_loader = example_csv_loader and tok' = example_tokenizer and bs' = 8,
      OF dir mem, unfolded joined]
  from inst have files: "get_data_files example_fs ''data''
      = Inr (PathList [''data/a'', ''data/b'', ''data/sub''])" by (rule conjunct1)
  from inst [THEN conjunct2, THEN conjunct2, THEN conjunct2, THEN conjunct1, rule_format, OF fails]
  have init: "RawTextDataset_init example_fs example_text_loader example_tokenizer ''data'' 8
       = ([], Inl (OtherError ''IsADirectoryError''))" .
  from dir mem sub files init show ?thesis by (intro conjI)
qed

text \<open>
  Claim C10: \<^verbatim>\<open>_clean_property\<close> raises \<^verbatim>\<open>TypeError\<close> on a \<^verbatim>\<open>str\<close> (the only kind
  of cell that is neither \<^verbatim>\<open>None\<close> nor a number) instead of returning \<open>0\<close> or the
  value. So \<^verbatim>\<open>__getitem__\<close> on a row with a \<^verbatim>\<open>str\<close> in a label column fails; when the
  tokenizer returned an encoding for the row and the label cells before that column are
  clean, the exception is that \<^verbatim>\<open>TypeError\<close>.
\<close>

theorem clean_property_rejects_str:
  "clean_property (PStr t) = Inl TypeError
   \<and> (dataset_getitem (dataset self) i = Inr line \<and> c \<in> set (label_columns self)
        \<and> map_of line c = Some (PStr t)
      \<longrightarrow> (\<exists>e. fst (RegressionDataset_getitem self i s) = Inl e))
   \<and> (dataset_getitem (dataset self) i = Inr line
        \<and> map_of line (smiles_column self) = Some smiles
        \<and> tokenizer self smiles
             \<lparr>add_special_tokens = True, truncation = True,
              padding = Some ''max_length'', max_length = block_size self\<rparr> s = (Inr enc, s')
        \<and> label_columns self = pre @ c # post
        \<and> (\<forall>p \<in> set pre. \<exists>x. map_of line p = Some x \<and> cleanable x)
        \<and> map_of line c = Some (PStr t)
      \<longrightarrow> RegressionDataset_getitem self i s = (Inl TypeError, self, s'))"
proof -
  have one: "clean_property (PStr t) = Inl TypeError"
    by (simp add: clean_property_def)
  have two: "dataset_getitem (dataset self) i = Inr line \<and> c \<in> set (label_columns self)
        \<and> map_of line c = Some (PStr t)
      \<longrightarrow> (\<exists>e. fst (RegressionDataset_getitem self i s) = Inl e)"
  proof (intro impI, elim conjE)
    assume row: "dataset_getitem (dataset self) i = Inr line"
      and c: "c \<in> set (label_columns self)" and cell: "map_of line c = Some (PStr t)"
    from clean_labels_str [OF c cell] obtain e
      where "clean_labels line (label_columns self) = Inl e" ..
    with row show "\<exists>e. fst (RegressionDataset_getitem self i s) = Inl e"
      by (simp add: RegressionDataset_getitem_def RegressionDataset_preprocess_def
          split: option.splits sum.splits prod.splits)
  qed
  have three: "dataset_getitem (dataset self) i = Inr line
        \<and> map_of line (smiles_column self) = Some smiles
        \<and> tokenizer self smiles
             \<lparr>add_special_tokens = True, truncation = True,
              padding = Some ''max_length'', max_length = block_size self\<rparr> s = (Inr enc, s')
        \<and> label_columns self = pre @ c # post
        \<and> (\<forall>p \<in> set pre. \<exists>x. map_of line p = Some x \<and> cleanable x)
        \<and> map_of line c = Some (PStr t)
      \<longrightarrow> RegressionDataset_getitem self i s = (Inl TypeError, self, s')"
  proof (intro impI, elim conjE)
    assume row: "dataset_getitem (dataset self) i = Inr line"
      and smiles: "map_of line (smiles_column self) = Some smiles"
      and call: "tokenizer self smiles
             \<lparr>add_special_tokens = True, truncation = True,
              padding = Some ''max_length'', max_length = block_size self\<rparr> s = (Inr enc, s')"
      and cols: "label_columns self = pre @ c # post"
      and pre: "\<forall>p \<in> set pre. \<exists>x. map_of line p = Some x \<and> cleanable x"
      and cell: "map_of line c = Some (PStr t)"
    from clean_labels_total [OF pre] obtain vs where "clean_labels line pre = Inr vs" ..
    from clean_labels_first_str [OF this cell]
    have "clean_labels line (label_columns self) = Inl TypeError" unfolding cols .
    with row smiles call
    show "RegressionDataset_getitem self i s = (Inl TypeError, self, s')"
      by (simp add: RegressionDataset_getitem_def RegressionDataset_preprocess_def)
  qed
  from one two three show ?thesis by (intro conjI)
qed

text \<open>
  Claim C10 on the example file \<^verbatim>\<open>bad.csv\<close>, whose only row has the label \<^verbatim>\<open>abc\<close>.
\<close>

theorem clean_property_rejects_str_witness:
  "clean_property (PStr ''abc'') = Inl TypeError
   \<and> dataset_getitem (dataset example_bad_dataset) 0
       = Inr [(''text'', PStr ''c''), (''y1'', PStr ''abc'')]
   \<and> ''y1'' \<in> set (label_columns example_bad_dataset)
   \<and> map_of [(''text'', PStr ''c''), (''y1'', PStr ''abc'')] ''y1'' = Some (PStr ''abc'')
   \<and> (\<exists>e. fst (RegressionDataset_getitem example_bad_dataset 0 0) = Inl e)
   \<and> RegressionDataset_getitem example_bad_dataset 0 0 = (Inl TypeError, example_bad_dataset, 0)"
proof -
  have row: "dataset_getitem (dataset example_bad_dataset) 0
       = Inr [(''text'', PStr ''c''), (''y1'', PStr ''abc'')]"
    by (simp add: dataset_getitem_def example_bad_dataset_def)
  have c: "''y1'' \<in> set (label_columns example_bad_dataset)"
    by (simp add: example_bad_dataset_def)
  have cell: "map_of [(''text'', PStr ''c''), (''y1'', PStr ''abc'')] ''y1'' = Some (PStr ''abc'')"
    by simp
  note inst = clean_property_rejects_str [where t = "''abc''" and self = example_bad_dataset
      and i = 0 and line = "[(''text'', PStr ''c''), (''y1'', PStr ''abc'')]" and c = "''y1''"
      and s = 0]
  from inst have one: "clean_property (PStr ''abc'') = Inl TypeError" by (rule conjunct1)
  from inst [THEN conjunct2, THEN conjunct1, rule_format, OF conjI [OF row conjI [OF c cell]]]
  have two: "\<exists>e. fst (RegressionDataset_getitem example_bad_dataset 0 0) = Inl e" .
  from one row c cell two example_bad_getitem_0 show ?thesis by (intro conjI)
qed

end
